theory Spec2Isabelle
  imports Main "HOL-Library.Word"
begin

unbundle bit_operations_syntax

section \<open>C arithmetic\<close>

text \<open>
  Integer division of C truncates towards zero, where \<open>div\<close> on \<open>int\<close> rounds down.
  Operands narrower than \<open>int\<close> are promoted to \<open>int\<close> before arithmetic and
  the result is cut to the width of the variable it is stored in: below, a promoted value
  is \<open>uint\<close> or \<open>sint\<close> of the word, and a store is \<open>word_of_int\<close>. No product
  or sum of the modelled expressions leaves the 32-bit range.
\<close>

definition c_div :: "int \<Rightarrow> int \<Rightarrow> int" where
  "c_div a b = (if (a < 0) = (b < 0) then \<bar>a\<bar> div \<bar>b\<bar> else - (\<bar>a\<bar> div \<bar>b\<bar>))"

section \<open>Configuration of the PWM audio engine (pwm\_audio.h)\<close>

definition PWM_AUDIO_SAMPLE_RATE :: int where
  "PWM_AUDIO_SAMPLE_RATE = 16000"

definition PWM_AUDIO_PWM_FREQ :: int where
  "PWM_AUDIO_PWM_FREQ = 1000000"

definition PWM_AUDIO_PERIOD_NS :: int where
  "PWM_AUDIO_PERIOD_NS = 1000000000 div PWM_AUDIO_PWM_FREQ"

definition PWM_AUDIO_MAX_VOLUME :: int where
  "PWM_AUDIO_MAX_VOLUME = 180"

definition PWM_AUDIO_MUTE_RAMP_MS :: int where
  "PWM_AUDIO_MUTE_RAMP_MS = 100"

definition PWM_AUDIO_MUTE_RAMP_STEPS :: int where
  "PWM_AUDIO_MUTE_RAMP_STEPS = 20"

definition PAM8403_GAIN_15DB :: "8 word" where
  "PAM8403_GAIN_15DB = 1"

definition ENODEV :: int where
  "ENODEV = 19"

definition ENOMEM :: int where
  "ENOMEM = 12"

definition MAX_BLOCK_SIZE :: nat where
  "MAX_BLOCK_SIZE = 10000"

section \<open>The drivers the engine calls\<close>

text \<open>
  The PWM, GPIO and memory-slab drivers belong to the RTOS. Each call of the engine into
  them is recorded in the state, in order, and its return value is given by a
  \<open>driver\<close>: any function of the calls made so far and of the present call. The engine
  always passes channel 0 and flags 0 to \<open>pwm_set\<close>; the request keeps the device,
  the period and the pulse width.
\<close>

datatype pwm_dev = pwm_audio_l | pwm_audio_r

datatype gpio_pin = pam8403_shutdown_pin | pam8403_gain0_pin | pam8403_gain1_pin

datatype hw_request =
    Device_is_ready pwm_dev
  | Pwm_set pwm_dev int "32 word"
  | Gpio_is_ready gpio_pin
  | Gpio_pin_configure gpio_pin
  | Gpio_pin_set gpio_pin int
  | Mem_slab_alloc

type_synonym driver = "hw_request list \<Rightarrow> hw_request \<Rightarrow> int"

section \<open>Engine state (the file-scope and function-scope statics of pwm\_audio.c)\<close>

record engine =
  current_volume :: "8 word"
  is_muted :: bool
  is_initialized :: bool
  ramp_step :: "8 word"
  target_volume :: "8 word"
  ramping_to_mute :: bool
  mute_ramp_timer :: "int option"
  hw_trace :: "hw_request list"

text \<open>
  \<open>mute_ramp_timer\<close> is \<open>None\<close> while the kernel timer is stopped and holds its period
  in milliseconds while it runs. The values at power-on are the initialisers of the source.
\<close>

definition engine_boot :: engine where
  "engine_boot =
     \<lparr> current_volume = word_of_int PWM_AUDIO_MAX_VOLUME,
       is_muted = False,
       is_initialized = False,
       ramp_step = 0,
       target_volume = 0,
       ramping_to_mute = False,
       mute_ramp_timer = None,
       hw_trace = [] \<rparr>"

definition hw :: "driver \<Rightarrow> hw_request \<Rightarrow> engine \<Rightarrow> int \<times> engine" where
  "hw drv c st = (drv (hw_trace st) c, st\<lparr>hw_trace := hw_trace st @ [c]\<rparr>)"

definition pwm_set :: "driver \<Rightarrow> pwm_dev \<Rightarrow> 32 word \<Rightarrow> engine \<Rightarrow> int \<times> engine" where
  "pwm_set drv dev pulse st = hw drv (Pwm_set dev PWM_AUDIO_PERIOD_NS pulse) st"

section \<open>Sample codec\<close>

definition audio_sample_to_pwm :: "engine \<Rightarrow> 16 word \<Rightarrow> 32 word" where
  "audio_sample_to_pwm st sample =
     (let scaled = c_div (sint sample * uint (current_volume st)) 256;
          scaled = (if scaled > 127 then 127 else scaled);
          scaled = (if scaled < -128 then -128 else scaled);
          unsigned_sample = (word_of_int (scaled + 128) :: 8 word);
          pulse_width =
            (word_of_int (uint unsigned_sample * PWM_AUDIO_PERIOD_NS div 256) :: 32 word);
          pulse_width =
            (if uint pulse_width < PWM_AUDIO_PERIOD_NS div 256
             then word_of_int (PWM_AUDIO_PERIOD_NS div 256) else pulse_width);
          pulse_width =
            (if uint pulse_width > PWM_AUDIO_PERIOD_NS - PWM_AUDIO_PERIOD_NS div 256
             then word_of_int (PWM_AUDIO_PERIOD_NS - PWM_AUDIO_PERIOD_NS div 256)
             else pulse_width)
      in pulse_width)"

section \<open>Volume and the anti-pop ramp\<close>

definition pwm_audio_set_volume :: "8 word \<Rightarrow> engine \<Rightarrow> engine" where
  "pwm_audio_set_volume volume st =
     (let volume = (if uint volume > PWM_AUDIO_MAX_VOLUME
                    then word_of_int PWM_AUDIO_MAX_VOLUME else volume)
      in st\<lparr>current_volume := volume\<rparr>)"

definition mute_ramp_callback :: "driver \<Rightarrow> engine \<Rightarrow> engine" where
  "mute_ramp_callback drv st =
     (let st = (if ramp_step st = 0
                then (if is_muted st
                      then st\<lparr>target_volume := 0, ramping_to_mute := True\<rparr>
                      else st\<lparr>target_volume := word_of_int PWM_AUDIO_MAX_VOLUME,
                              ramping_to_mute := False\<rparr>)
                else st);
          step_volume =
            (word_of_int (c_div (uint (target_volume st) * uint (ramp_step st))
                                PWM_AUDIO_MUTE_RAMP_STEPS) :: 8 word);
          step_volume =
            (if ramping_to_mute st
             then (word_of_int (uint (current_volume st) - uint step_volume) :: 8 word)
             else step_volume);
          st = pwm_audio_set_volume step_volume st;
          st = st\<lparr>ramp_step := ramp_step st + 1\<rparr>
      in if uint (ramp_step st) \<ge> PWM_AUDIO_MUTE_RAMP_STEPS
         then (let st = st\<lparr>ramp_step := 0, mute_ramp_timer := None\<rparr>
               in if ramping_to_mute st
                  then (let (err_l, st) =
                              pwm_set drv pwm_audio_l (word_of_int (PWM_AUDIO_PERIOD_NS div 2)) st;
                            (err_r, st) =
                              pwm_set drv pwm_audio_r (word_of_int (PWM_AUDIO_PERIOD_NS div 2)) st
                        in st)
                  else st)
         else st)"

text \<open>The kernel runs the expiry function of a timer only while the timer runs.\<close>

definition mute_ramp_timer_expiry :: "driver \<Rightarrow> engine \<Rightarrow> engine" where
  "mute_ramp_timer_expiry drv st =
     (case mute_ramp_timer st of None \<Rightarrow> st | Some period \<Rightarrow> mute_ramp_callback drv st)"

definition k_timer_start :: "int \<Rightarrow> engine \<Rightarrow> engine" where
  "k_timer_start period st = st\<lparr>mute_ramp_timer := Some period\<rparr>"

definition pwm_audio_mute :: "engine \<Rightarrow> engine" where
  "pwm_audio_mute st =
     (if \<not> is_initialized st then st
      else if \<not> is_muted st
      then k_timer_start (c_div PWM_AUDIO_MUTE_RAMP_MS PWM_AUDIO_MUTE_RAMP_STEPS)
             (st\<lparr>is_muted := True\<rparr>)
      else st)"

definition pwm_audio_unmute :: "engine \<Rightarrow> engine" where
  "pwm_audio_unmute st =
     (if \<not> is_initialized st then st
      else if is_muted st
      then k_timer_start (c_div PWM_AUDIO_MUTE_RAMP_MS PWM_AUDIO_MUTE_RAMP_STEPS)
             (st\<lparr>is_muted := False\<rparr>)
      else st)"

section \<open>Amplifier control\<close>

definition pam8403_set_gain :: "driver \<Rightarrow> 8 word \<Rightarrow> engine \<Rightarrow> engine" where
  "pam8403_set_gain drv gain_level st =
     (let gain_level = (if uint gain_level > 3 then 1 else gain_level);
          (rdy, st) = hw drv (Gpio_is_ready pam8403_gain0_pin) st;
          st = (if rdy \<noteq> 0
                then snd (hw drv (Gpio_pin_set pam8403_gain0_pin (uint (gain_level AND 1))) st)
                else st);
          (rdy, st) = hw drv (Gpio_is_ready pam8403_gain1_pin) st;
          st = (if rdy \<noteq> 0
                then snd (hw drv (Gpio_pin_set pam8403_gain1_pin
                                   (uint (drop_bit 1 gain_level AND 1))) st)
                else st)
      in st)"

definition pam8403_shutdown :: "driver \<Rightarrow> engine \<Rightarrow> engine" where
  "pam8403_shutdown drv st = snd (hw drv (Gpio_pin_set pam8403_shutdown_pin 0) st)"

definition pam8403_wakeup :: "driver \<Rightarrow> engine \<Rightarrow> engine" where
  "pam8403_wakeup drv st = snd (hw drv (Gpio_pin_set pam8403_shutdown_pin 1) st)"

definition pam8403_init :: "driver \<Rightarrow> engine \<Rightarrow> int \<times> engine" where
  "pam8403_init drv st =
     (let (rdy, st) = hw drv (Gpio_is_ready pam8403_shutdown_pin) st
      in if rdy \<noteq> 0
         then (let (err, st) = hw drv (Gpio_pin_configure pam8403_shutdown_pin) st
               in if err \<noteq> 0 then (err, st)
                  else (let (rdy, st) = hw drv (Gpio_is_ready pam8403_gain0_pin) st;
                            st = (if rdy \<noteq> 0
                                  then snd (hw drv (Gpio_pin_configure pam8403_gain0_pin) st)
                                  else st);
                            (rdy, st) = hw drv (Gpio_is_ready pam8403_gain1_pin) st;
                            st = (if rdy \<noteq> 0
                                  then snd (hw drv (Gpio_pin_configure pam8403_gain1_pin) st)
                                  else st);
                            st = pam8403_set_gain drv PAM8403_GAIN_15DB st;
                            st = pam8403_wakeup drv st
                        in (0, st)))
         else (- ENODEV, st))"

section \<open>Initialisation and playback\<close>

definition pwm_audio_init :: "driver \<Rightarrow> engine \<Rightarrow> int \<times> engine" where
  "pwm_audio_init drv st =
     (if is_initialized st then (0, st)
      else (let (rdy, st) = hw drv (Device_is_ready pwm_audio_l) st
            in if rdy = 0 then (- ENODEV, st)
               else (let (rdy, st) = hw drv (Device_is_ready pwm_audio_r) st
                     in if rdy = 0 then (- ENODEV, st)
                        else (let (err, st) = pwm_set drv pwm_audio_l
                                                (word_of_int (PWM_AUDIO_PERIOD_NS div 2)) st
                              in if err \<noteq> 0 then (err, st)
                                 else (let (err, st) = pwm_set drv pwm_audio_r
                                                (word_of_int (PWM_AUDIO_PERIOD_NS div 2)) st
                                       in if err \<noteq> 0 then (err, st)
                                          else (let (err, st) = pam8403_init drv st
                                                in if err \<noteq> 0 then (err, st)
                                                   else (0, st\<lparr>is_muted := True,
                                                               is_initialized := True\<rparr>)))))))"

function play_loop ::
  "driver \<Rightarrow> 16 word list \<Rightarrow> nat \<Rightarrow> nat \<Rightarrow> engine \<Rightarrow> (int \<times> engine) option" where
  "play_loop drv buffer samples i st =
     (if i < samples \<and> i + 1 < samples
      then (if i + 1 < length buffer
            then (let left_sample = buffer ! i;
                      right_sample = buffer ! (i + 1);
                      left_pulse = audio_sample_to_pwm st left_sample;
                      right_pulse = audio_sample_to_pwm st right_sample;
                      (err, st) = pwm_set drv pwm_audio_l left_pulse st
                  in if err \<noteq> 0 then Some (err, st)
                     else (let (err, st) = pwm_set drv pwm_audio_r right_pulse st
                           in if err \<noteq> 0 then Some (err, st)
                              else play_loop drv buffer samples (i + 2) st))
            else None)
      else Some (0, st))"
  by pat_completeness auto
termination
  by (relation "measure (\<lambda>(drv, buffer, samples, i, st). samples - i)") auto

definition pwm_audio_play ::
  "driver \<Rightarrow> 16 word list \<Rightarrow> nat \<Rightarrow> engine \<Rightarrow> (int \<times> engine) option" where
  "pwm_audio_play drv buffer samples st =
     (if \<not> is_initialized st then Some (- ENODEV, st)
      else if is_muted st then Some (0, st)
      else play_loop drv buffer samples 0 st)"

function play_mono_loop ::
  "driver \<Rightarrow> 16 word list \<Rightarrow> nat \<Rightarrow> nat \<Rightarrow> engine \<Rightarrow> (int \<times> engine) option" where
  "play_mono_loop drv buffer samples i st =
     (if i < samples
      then (if i < length buffer
            then (let sample = buffer ! i;
                      pulse = audio_sample_to_pwm st sample;
                      (err, st) = pwm_set drv pwm_audio_l pulse st
                  in if err \<noteq> 0 then Some (err, st)
                     else (let (err, st) = pwm_set drv pwm_audio_r pulse st
                           in if err \<noteq> 0 then Some (err, st)
                              else play_mono_loop drv buffer samples (i + 1) st))
            else None)
      else Some (0, st))"
  by pat_completeness auto
termination
  by (relation "measure (\<lambda>(drv, buffer, samples, i, st). samples - i)") auto

definition pwm_audio_play_mono ::
  "driver \<Rightarrow> 16 word list \<Rightarrow> nat \<Rightarrow> engine \<Rightarrow> (int \<times> engine) option" where
  "pwm_audio_play_mono drv buffer samples st =
     (if \<not> is_initialized st then Some (- ENODEV, st)
      else if is_muted st then Some (0, st)
      else play_mono_loop drv buffer samples 0 st)"

declare play_loop.simps [simp del] play_mono_loop.simps [simp del]

section \<open>Self-test playback\<close>

text \<open>
  The three test routines fill a slab block with a waveform computed in floating point and
  play it. The waveform is a parameter here: \<open>wave i\<close> is the sample the routine
  stores at index \<open>i\<close>. Only the first \<open>samples\<close> entries of the block are
  written and played. The sample count is computed the same way in all three.
\<close>

definition test_sample_count :: "16 word \<Rightarrow> nat" where
  "test_sample_count duration_ms =
     (let samples = nat (c_div (PWM_AUDIO_SAMPLE_RATE * uint duration_ms) 1000)
      in if samples > MAX_BLOCK_SIZE div 2 then MAX_BLOCK_SIZE div 2 else samples)"

definition pwm_audio_test_sine_wave ::
  "driver \<Rightarrow> (nat \<Rightarrow> 16 word) \<Rightarrow> 8 word \<Rightarrow> 16 word \<Rightarrow> engine \<Rightarrow> (int \<times> engine) option" where
  "pwm_audio_test_sine_wave drv wave volume duration_ms st =
     (if \<not> is_initialized st then Some (- ENODEV, st)
      else (let original_volume = current_volume st;
                st = pwm_audio_set_volume volume st;
                samples = test_sample_count duration_ms;
                (err, st) = hw drv Mem_slab_alloc st
            in if err \<noteq> 0 then Some (- ENOMEM, st)
               else (case pwm_audio_play_mono drv (map wave [0..<samples]) samples st of
                       None \<Rightarrow> None
                     | Some (ret, st) \<Rightarrow> Some (ret, pwm_audio_set_volume original_volume st))))"

definition pwm_audio_test_sweep ::
  "driver \<Rightarrow> (nat \<Rightarrow> 16 word) \<Rightarrow> 16 word \<Rightarrow> engine \<Rightarrow> (int \<times> engine) option" where
  "pwm_audio_test_sweep drv wave duration_ms st =
     (if \<not> is_initialized st then Some (- ENODEV, st)
      else (let samples = test_sample_count duration_ms;
                (err, st) = hw drv Mem_slab_alloc st
            in if err \<noteq> 0 then Some (- ENOMEM, st)
               else pwm_audio_play_mono drv (map wave [0..<samples]) samples st))"

definition pwm_audio_test_white_noise ::
  "driver \<Rightarrow> (nat \<Rightarrow> 16 word) \<Rightarrow> 16 word \<Rightarrow> engine \<Rightarrow> (int \<times> engine) option" where
  "pwm_audio_test_white_noise drv wave duration_ms st =
     (if \<not> is_initialized st then Some (- ENODEV, st)
      else (let samples = test_sample_count duration_ms;
                (err, st) = hw drv Mem_slab_alloc st
            in if err \<noteq> 0 then Some (- ENOMEM, st)
               else pwm_audio_play_mono drv (map wave [0..<samples]) samples st))"

section \<open>The operations of the engine as one step function\<close>

datatype engine_op =
    Init
  | Play "16 word list" nat
  | Play_mono "16 word list" nat
  | Mute
  | Unmute
  | Set_volume "8 word"
  | Timer_expiry
  | Test_sine_wave "nat \<Rightarrow> 16 word" "8 word" "16 word"
  | Test_sweep "nat \<Rightarrow> 16 word" "16 word"
  | Test_white_noise "nat \<Rightarrow> 16 word" "16 word"
  | Amp_shutdown
  | Amp_wakeup
  | Amp_set_gain "8 word"

fun engine_step :: "driver \<Rightarrow> engine_op \<Rightarrow> engine \<Rightarrow> engine option" where
  "engine_step drv Init st = Some (snd (pwm_audio_init drv st))"
| "engine_step drv (Play buffer samples) st =
     map_option snd (pwm_audio_play drv buffer samples st)"
| "engine_step drv (Play_mono buffer samples) st =
     map_option snd (pwm_audio_play_mono drv buffer samples st)"
| "engine_step drv Mute st = Some (pwm_audio_mute st)"
| "engine_step drv Unmute st = Some (pwm_audio_unmute st)"
| "engine_step drv (Set_volume v) st = Some (pwm_audio_set_volume v st)"
| "engine_step drv Timer_expiry st = Some (mute_ramp_timer_expiry drv st)"
| "engine_step drv (Test_sine_wave wave v d) st =
     map_option snd (pwm_audio_test_sine_wave drv wave v d st)"
| "engine_step drv (Test_sweep wave d) st =
     map_option snd (pwm_audio_test_sweep drv wave d st)"
| "engine_step drv (Test_white_noise wave d) st =
     map_option snd (pwm_audio_test_white_noise drv wave d st)"
| "engine_step drv Amp_shutdown st = Some (pam8403_shutdown drv st)"
| "engine_step drv Amp_wakeup st = Some (pam8403_wakeup drv st)"
| "engine_step drv (Amp_set_gain g) st = Some (pam8403_set_gain drv g st)"

fun engine_run :: "driver \<Rightarrow> engine_op list \<Rightarrow> engine \<Rightarrow> engine option" where
  "engine_run drv [] st = Some st"
| "engine_run drv (op # ops) st =
     (case engine_step drv op st of None \<Rightarrow> None | Some st' \<Rightarrow> engine_run drv ops st')"

section \<open>Numbered audio file store (sd\_card.c)\<close>

text \<open>
  The file system belongs to the RTOS. As for the drivers, each call is recorded and its
  return value is given by a function of the earlier calls and of the present one, so that
  the model covers any file system, in any state. \<open>Fs_open\<close> is the call with the
  flags \<open>FS_O_WRITE | FS_O_CREATE\<close>, the only one the modelled functions make.

  \<open>generate_new_audio_header\<close> returns a null pointer above 99, and its callers hand
  the pointer to \<open>snprintf\<close> unchecked; what the C library prints for a null string
  argument is \<open>null_text\<close> of the platform. Heap allocation is taken to succeed
  (the source writes through the result of \<open>k_malloc\<close> unchecked).
\<close>

definition SD_MOUNT_PT :: string where
  "SD_MOUNT_PT = ''/SD:''"

definition MAX_PATH :: nat where
  "MAX_PATH = 128"

datatype fs_request =
    Fs_unlink string
  | Fs_mkdir string
  | Fs_open string
  | Fs_close
  | Fs_stat string

type_synonym filesystem = "fs_request list \<Rightarrow> fs_request \<Rightarrow> int"

record platform =
  fs :: filesystem
  null_text :: string

record store =
  file_count :: "8 word"
  current_read_file :: "8 word"
  current_write_file :: "8 word"
  current_full_path :: string
  read_buffer :: string
  write_buffer :: string
  fs_trace :: "fs_request list"

definition fs_call :: "platform \<Rightarrow> fs_request \<Rightarrow> store \<Rightarrow> int \<times> store" where
  "fs_call pf c st = (fs pf (fs_trace st) c, st\<lparr>fs_trace := fs_trace st @ [c]\<rparr>)"

definition generate_new_audio_header :: "8 word \<Rightarrow> string option" where
  "generate_new_audio_header num =
     (if uint num > 99 then None
      else Some [CHR ''a'', CHR ''u'', CHR ''d'', CHR ''i'', CHR ''o'', CHR ''/'', CHR ''a'',
                 char_of (48 + uint num div 10), char_of (48 + uint num mod 10),
                 CHR ''.'', CHR ''t'', CHR ''x'', CHR ''t''])"

text \<open>
  \<open>snprintf(dst, n, "%s%s", s1, s2)\<close>: the two strings, cut to \<open>n - 1\<close>
  characters.
\<close>

definition snprintf_ss :: "platform \<Rightarrow> nat \<Rightarrow> string \<Rightarrow> string option \<Rightarrow> string" where
  "snprintf_ss pf n s1 s2 =
     take (n - 1) (s1 @ (case s2 of None \<Rightarrow> null_text pf | Some s \<Rightarrow> s))"

definition create_file :: "platform \<Rightarrow> string \<Rightarrow> store \<Rightarrow> int \<times> store" where
  "create_file pf file_path st =
     (let st = st\<lparr>current_full_path := snprintf_ss pf MAX_PATH SD_MOUNT_PT (Some file_path)\<rparr>;
          (ret, st) = fs_call pf (Fs_open (current_full_path st)) st
      in if ret \<noteq> 0 then (- 2, st)
         else (let (r, st) = fs_call pf Fs_close st in (0, st)))"

definition move_read_pointer :: "platform \<Rightarrow> 8 word \<Rightarrow> store \<Rightarrow> int \<times> store" where
  "move_read_pointer pf num st =
     (let read_ptr = generate_new_audio_header num;
          st = st\<lparr>read_buffer := snprintf_ss pf MAX_PATH SD_MOUNT_PT read_ptr\<rparr>;
          (res, st) = fs_call pf (Fs_stat (read_buffer st)) st
      in if res \<noteq> 0 then (- 1, st)
         else (0, st\<lparr>current_read_file := num\<rparr>))"

definition move_write_pointer :: "platform \<Rightarrow> 8 word \<Rightarrow> store \<Rightarrow> int \<times> store" where
  "move_write_pointer pf num st =
     (let write_ptr = generate_new_audio_header num;
          st = st\<lparr>write_buffer := snprintf_ss pf MAX_PATH SD_MOUNT_PT write_ptr\<rparr>;
          (res, st) = fs_call pf (Fs_stat (write_buffer st)) st
      in if res \<noteq> 0 then (- 1, st)
         else (0, st\<lparr>current_write_file := num\<rparr>))"

definition delete_audio_file :: "platform \<Rightarrow> 8 word \<Rightarrow> store \<Rightarrow> int \<times> store" where
  "delete_audio_file pf num st =
     (let ptr = generate_new_audio_header num;
          st = st\<lparr>current_full_path := snprintf_ss pf MAX_PATH SD_MOUNT_PT ptr\<rparr>;
          (res, st) = fs_call pf (Fs_unlink (current_full_path st)) st
      in if res \<noteq> 0 then (- 1, st) else (0, st))"

text \<open>The loop \<open>for (uint8_t i = file_count; i > 0; i--)\<close> of \<open>clear_audio_directory\<close>.\<close>

function clear_loop :: "platform \<Rightarrow> 8 word \<Rightarrow> store \<Rightarrow> int \<times> store" where
  "clear_loop pf i st =
     (if i > 0
      then (let (res, st) = delete_audio_file pf i st
            in if res \<noteq> 0 then (- 1, st) else clear_loop pf (i - 1) st)
      else (0, st))"
  by pat_completeness auto
termination
proof (relation "measure (\<lambda>(pf, i, st). unat i)")
  fix pf :: platform and i :: "8 word" and st x xa y
  assume "0 < i"
  then have "unat i \<noteq> 0"
    by (simp add: word_gt_0 unat_eq_zero)
  moreover have "unat (i - 1) = unat i - 1"
    using \<open>0 < i\<close> by (simp add: unat_minus_one word_gt_0)
  ultimately show "((pf, i - 1, y), (pf, i, st)) \<in> measure (\<lambda>(pf, i, st). unat i)"
    by simp
qed simp

definition clear_audio_directory :: "platform \<Rightarrow> store \<Rightarrow> int \<times> store" where
  "clear_audio_directory pf st =
     (if file_count st = 1 then (0, st)
      else (let (res, st) = clear_loop pf (file_count st) st
            in if res \<noteq> 0 then (- 1, st)
               else (let (res, st) = fs_call pf (Fs_unlink ''/SD:/audio'') st
                     in if res \<noteq> 0 then (- 1, st)
                        else (let (res, st) = fs_call pf (Fs_mkdir ''/SD:/audio'') st
                              in if res \<noteq> 0 then (- 1, st)
                                 else (let (res, st) = create_file pf ''audio/a01.txt'' st
                                       in if res \<noteq> 0 then (- 1, st)
                                          else (let st = st\<lparr>file_count := 1\<rparr>;
                                                    (r, st) = move_write_pointer pf 1 st
                                                in (0, st)))))))"

declare clear_loop.simps [simp del]

text \<open>The path that the cursor moves and the deletion format for file number \<open>num\<close>.\<close>

definition audio_path :: "platform \<Rightarrow> 8 word \<Rightarrow> string" where
  "audio_path pf num = snprintf_ss pf MAX_PATH SD_MOUNT_PT (generate_new_audio_header num)"

section \<open>Chunked stream reassembler (speaker\_pwm.c)\<close>

text \<open>
  The state is the one \<open>speaker_init\<close> leaves: \<open>rx_buffer\<close> is the slab block
  of \<open>MAX_BLOCK_SIZE\<close> bytes, kept as its 16-bit samples. \<open>ptr2\<close> and
  \<open>clear_ptr\<close> are null (\<open>None\<close>) or point at a sample index of that block. A
  read beyond the transport buffer, a write through a null pointer or beyond the block is a
  memory fault, the result \<open>None\<close>. \<open>play_mono_calls\<close> is not in the source:
  it records the sample count of every call of \<open>pwm_audio_play_mono\<close> that
  \<open>speak\<close> makes. The transport buffer is a list of bytes, read little-endian as the
  nRF52840 does.
\<close>

definition PACKET_SIZE :: int where
  "PACKET_SIZE = 400"

record speaker =
  audio :: engine
  rx_buffer :: "16 word list"
  ptr2 :: "nat option"
  clear_ptr :: "nat option"
  current_length :: "16 word"
  offset :: "16 word"
  play_mono_calls :: "nat list"

definition read_u32 :: "8 word list \<Rightarrow> nat \<Rightarrow> 32 word option" where
  "read_u32 buf i =
     (if 4 * i + 3 < length buf
      then Some (word_of_int (uint (buf ! (4 * i)) + 256 * uint (buf ! (4 * i + 1))
                              + 65536 * uint (buf ! (4 * i + 2))
                              + 16777216 * uint (buf ! (4 * i + 3))))
      else None)"

definition read_i16 :: "8 word list \<Rightarrow> nat \<Rightarrow> 16 word option" where
  "read_i16 buf i =
     (if 2 * i + 1 < length buf
      then Some (word_of_int (uint (buf ! (2 * i)) + 256 * uint (buf ! (2 * i + 1))))
      else None)"

text \<open>The statement \<open>*ptr2++ = v\<close>.\<close>

definition put_sample :: "16 word \<Rightarrow> speaker \<Rightarrow> speaker option" where
  "put_sample v sp =
     (case ptr2 sp of
        None \<Rightarrow> None
      | Some p \<Rightarrow>
          if p < length (rx_buffer sp)
          then Some (sp\<lparr>rx_buffer := (rx_buffer sp)[p := v], ptr2 := Some (p + 1)\<rparr>)
          else None)"

text \<open>
  The copying loop of both data branches: sample \<open>i\<close> of the chunk goes to two
  consecutive slots of the block.
\<close>

function copy_loop :: "8 word list \<Rightarrow> nat \<Rightarrow> nat \<Rightarrow> speaker \<Rightarrow> speaker option" where
  "copy_loop buf n i sp =
     (if i < n
      then (case read_i16 buf i of
              None \<Rightarrow> None
            | Some v \<Rightarrow>
                (case put_sample v sp of
                   None \<Rightarrow> None
                 | Some sp \<Rightarrow>
                     (case put_sample v sp of
                        None \<Rightarrow> None
                      | Some sp \<Rightarrow> copy_loop buf n (i + 1) sp)))
      else Some sp)"
  by pat_completeness auto
termination
  by (relation "measure (\<lambda>(buf, n, i, sp). n - i)") auto

declare copy_loop.simps [simp del]

text \<open>\<open>memset(p, 0, 2 * n)\<close> on the block, \<open>n\<close> samples from \<open>p\<close> on.\<close>

definition memset_zero :: "nat option \<Rightarrow> nat \<Rightarrow> 16 word list \<Rightarrow> 16 word list option" where
  "memset_zero p n blk =
     (case p of
        None \<Rightarrow> None
      | Some c \<Rightarrow>
          if c + n \<le> length blk
          then Some (take c blk @ replicate n 0 @ drop (c + n) blk)
          else None)"

definition speak ::
  "driver \<Rightarrow> 16 word \<Rightarrow> 8 word list \<Rightarrow> speaker \<Rightarrow> (16 word \<times> speaker) option" where
  "speak drv len buf sp =
     (let amount = len
      in if len = 4
         then (case read_u32 buf 0 of
                 None \<Rightarrow> None
               | Some w \<Rightarrow>
                   Some (amount, sp\<lparr>current_length := word_of_int (uint w),
                                    ptr2 := Some 0, clear_ptr := Some 0\<rparr>))
         else if uint (current_length sp) > PACKET_SIZE
         then (let sp = sp\<lparr>current_length :=
                              word_of_int (uint (current_length sp) - PACKET_SIZE)\<rparr>
               in case copy_loop buf (nat (c_div (uint len) 2)) 0 sp of
                    None \<Rightarrow> None
                  | Some sp \<Rightarrow>
                      Some (amount, sp\<lparr>offset := word_of_int (uint (offset sp) + uint len)\<rparr>))
         else if uint (current_length sp) < PACKET_SIZE
         then (let sp = sp\<lparr>current_length :=
                              word_of_int (uint (current_length sp) - uint len)\<rparr>
               in case copy_loop buf (nat (c_div (uint len) 2)) 0 sp of
                    None \<Rightarrow> None
                  | Some sp \<Rightarrow>
                      (let sp = sp\<lparr>offset := word_of_int (uint (offset sp) + uint len)\<rparr>;
                           sp = sp\<lparr>offset := 0\<rparr>
                       in case pwm_audio_play_mono drv (rx_buffer sp) (MAX_BLOCK_SIZE div 2)
                                 (audio sp) of
                            None \<Rightarrow> None
                          | Some (res, eng) \<Rightarrow>
                              (let sp = sp\<lparr>audio := eng,
                                           play_mono_calls :=
                                             play_mono_calls sp @ [MAX_BLOCK_SIZE div 2]\<rparr>
                               in case memset_zero (clear_ptr sp) (MAX_BLOCK_SIZE div 2)
                                         (rx_buffer sp) of
                                    None \<Rightarrow> None
                                  | Some blk \<Rightarrow> Some (amount, sp\<lparr>rx_buffer := blk\<rparr>))))
         else Some (amount, sp))"

section \<open>Notions used in the statements\<close>

text \<open>The codec on mathematical integers: clipping to 8 bits, then the pulse width.\<close>

definition clip8 :: "int \<Rightarrow> int" where
  "clip8 x = (let s = (if x > 127 then 127 else x) in if s < -128 then -128 else s)"

definition duty_int :: "int \<Rightarrow> int" where
  "duty_int u =
     (let p = u * 1000 div 256; p = (if p < 3 then 3 else p) in if p > 997 then 997 else p)"

text \<open>The volume invariant of the engine.\<close>

definition volume_ok :: "engine \<Rightarrow> bool" where
  "volume_ok st \<longleftrightarrow>
     0 \<le> uint (current_volume st) \<and> uint (current_volume st) \<le> PWM_AUDIO_MAX_VOLUME"

text \<open>
  A driver on which every device and pin is ready and every call succeeds, and the run from
  power-on that makes the engine play at full volume: initialise, unmute, let the ramp
  finish, set the volume to the maximum.
\<close>

definition drv_ok :: driver where
  "drv_ok trace c =
     (case c of Device_is_ready dev \<Rightarrow> 1 | Gpio_is_ready pin \<Rightarrow> 1 | _ \<Rightarrow> 0)"

definition engine_playing :: engine where
  "engine_playing =
     pwm_audio_set_volume 180
       ((mute_ramp_timer_expiry drv_ok ^^ 20)
          (pwm_audio_unmute (snd (pwm_audio_init drv_ok engine_boot))))"


text \<open>The deletions of the files \<open>n\<close>, \<open>n - 1\<close>, ..., 1, in this order.\<close>

definition unlinks :: "platform \<Rightarrow> nat \<Rightarrow> fs_request list" where
  "unlinks pf n = map (\<lambda>k. Fs_unlink (audio_path pf (of_nat k))) (rev [1..<Suc n])"

text \<open>
  The file system answers 0 to each of the given calls, made in this order after the calls
  of \<open>trace\<close>.
\<close>

fun accepts :: "platform \<Rightarrow> fs_request list \<Rightarrow> fs_request list \<Rightarrow> bool" where
  "accepts pf trace [] = True"
| "accepts pf trace (c # cs) = (fs pf trace c = 0 \<and> accepts pf (trace @ [c]) cs)"

text \<open>
  A file system on which every call succeeds; one on which \<open>fs_stat\<close> finds the audio
  file 3 and every other call fails with \<open>-ENOENT\<close>, which is -2; the store with
  its statics at their initialisers; and a store that tracks five files, reading file 3 and
  writing file 5.
\<close>

definition fs_all_ok :: platform where
  "fs_all_ok = \<lparr> fs = (\<lambda>trace c. 0), null_text = ''(null)'' \<rparr>"

definition fs_only_a03 :: platform where
  "fs_only_a03 =
     \<lparr> fs = (\<lambda>trace c. if c = Fs_stat ''/SD:audio/a03.txt'' then 0 else - 2),
       null_text = ''(null)'' \<rparr>"

definition store_boot :: store where
  "store_boot =
     \<lparr> file_count = 0, current_read_file = 1, current_write_file = 1,
       current_full_path = [], read_buffer = [], write_buffer = [], fs_trace = [] \<rparr>"

definition store_five :: store where
  "store_five =
     \<lparr> file_count = 5, current_read_file = 3, current_write_file = 5,
       current_full_path = [], read_buffer = [], write_buffer = [], fs_trace = [] \<rparr>"

text \<open>Sample \<open>j\<close> of a transport buffer, and a list with every element doubled.\<close>

definition sample_at :: "8 word list \<Rightarrow> nat \<Rightarrow> 16 word" where
  "sample_at buf j = word_of_int (uint (buf ! (2 * j)) + 256 * uint (buf ! (2 * j + 1)))"

definition twice :: "'a list \<Rightarrow> 'a list" where
  "twice xs = concat (map (\<lambda>x. [x, x]) xs)"

text \<open>
  The reassembler as \<open>speaker_init\<close> leaves it, over a given engine state; the control
  chunk announcing 800 bytes (\<open>0x00000320\<close>, little-endian); a data chunk of 400 bytes,
  every sample \<open>0x0101\<close>.
\<close>

definition speaker_ready :: "engine \<Rightarrow> speaker" where
  "speaker_ready eng =
     \<lparr> audio = eng, rx_buffer = replicate (MAX_BLOCK_SIZE div 2) 0, ptr2 = None,
       clear_ptr = None, current_length = 0, offset = 0, play_mono_calls = [] \<rparr>"

definition header_800 :: "8 word list" where
  "header_800 = [0x20, 0x03, 0x00, 0x00]"

definition chunk_400 :: "8 word list" where
  "chunk_400 = replicate 400 1"

section \<open>Theorems about the sample codec\<close>

lemma PWM_AUDIO_PERIOD_NS_value: "PWM_AUDIO_PERIOD_NS = 1000"
  by (simp add: PWM_AUDIO_PERIOD_NS_def PWM_AUDIO_PWM_FREQ_def)

lemma audio_sample_to_pwm_int:
  "uint (audio_sample_to_pwm st s) =
     duty_int (clip8 (c_div (sint s * uint (current_volume st)) 256) + 128)"
proof -
  define c where "c = clip8 (c_div (sint s * uint (current_volume st)) 256)"
  have c: "-128 \<le> c" "c \<le> 127"
    by (auto simp: c_def clip8_def Let_def)
  have u: "uint (word_of_int (c + 128) :: 8 word) = c + 128"
    unfolding uint_word_of_int using c by simp
  define p where "p = (c + 128) * 1000 div 256"
  have p: "0 \<le> p" "p \<le> 996"
    using c by (auto simp: p_def)
  have up: "uint (word_of_int p :: 32 word) = p"
    unfolding uint_word_of_int using p by simp
  have "audio_sample_to_pwm st s =
      (let pw = (word_of_int (uint (word_of_int (c + 128) :: 8 word) * 1000 div 256) :: 32 word);
           pw = (if uint pw < 1000 div 256 then word_of_int (1000 div 256) else pw)
       in if uint pw > 1000 - 1000 div 256 then word_of_int (1000 - 1000 div 256) else pw)"
    by (simp only: audio_sample_to_pwm_def Let_def c_def clip8_def PWM_AUDIO_PERIOD_NS_value)
  also have "\<dots> = (let pw = (word_of_int p :: 32 word);
           pw = (if uint pw < 3 then word_of_int 3 else pw)
       in if uint pw > 997 then word_of_int 997 else pw)"
    by (simp only: u p_def) (simp add: Let_def)
  also have "uint \<dots> = duty_int (c + 128)"
    unfolding Let_def duty_int_def p_def[symmetric] using up p
    by (auto simp: uint_word_of_int)
  finally show ?thesis
    by (simp add: c_def)
qed

lemma c_div_256_mono:
  assumes ab: "a \<le> b"
  shows "c_div a 256 \<le> c_div b 256"
proof -
  have neg: "c_div x 256 = - ((- x) div 256)" if "x < 0" for x
    using that by (simp add: c_div_def)
  have pos: "c_div x 256 = x div 256" if "0 \<le> x" for x
    using that by (auto simp add: c_div_def)
  show ?thesis
  proof (cases "a < 0")
    case a: True
    show ?thesis
    proof (cases "b < 0")
      case True
      have "(- b) div 256 \<le> (- a) div 256"
        using ab by (intro zdiv_mono1) auto
      then show ?thesis
        using a True by (simp add: neg)
    next
      case False
      have "0 \<le> (- a) div 256"
        using a by simp
      moreover have "0 \<le> b div 256"
        using False by simp
      ultimately show ?thesis
        using a False by (simp add: neg pos)
    qed
  next
    case False
    then have "0 \<le> a" "0 \<le> b"
      using ab by auto
    moreover have "a div 256 \<le> b div 256"
      using ab by (intro zdiv_mono1) auto
    ultimately show ?thesis
      by (simp add: pos)
  qed
qed

lemma clip8_mono: "x \<le> y \<Longrightarrow> clip8 x \<le> clip8 y"
  by (auto simp: clip8_def Let_def)

lemma duty_int_mono:
  assumes "x \<le> y"
  shows "duty_int x \<le> duty_int y"
proof -
  from assms have "x * 1000 div 256 \<le> y * 1000 div 256"
    by (intro zdiv_mono1) auto
  then show ?thesis
    by (auto simp: duty_int_def Let_def)
qed

lemma duty_int_range: "3 \<le> duty_int u \<and> duty_int u \<le> 997"
  by (auto simp: duty_int_def Let_def)

text \<open>
  C3. \<open>audio_sample_to_pwm\<close> returns a pulse width between \<open>PWM_AUDIO_PERIOD_NS / 256\<close>
  and \<open>PWM_AUDIO_PERIOD_NS - PWM_AUDIO_PERIOD_NS / 256\<close>, that is between 3 and 997 of
  a period of 1000, so strictly inside the rails 0 and \<open>PWM_AUDIO_PERIOD_NS\<close>. The
  sample ranges over all of \<open>int16_t\<close>, which is [-32768, 32767], and the bound holds
  at every stored volume, those of [0, 180] among them.
\<close>

theorem audio_sample_to_pwm_off_rails:
  "PWM_AUDIO_PERIOD_NS = 1000
   \<and> PWM_AUDIO_PERIOD_NS div 256 = 3
   \<and> PWM_AUDIO_PERIOD_NS div 256 \<le> uint (audio_sample_to_pwm st sample)
   \<and> uint (audio_sample_to_pwm st sample) \<le> PWM_AUDIO_PERIOD_NS - PWM_AUDIO_PERIOD_NS div 256
   \<and> 0 < uint (audio_sample_to_pwm st sample)
   \<and> uint (audio_sample_to_pwm st sample) < PWM_AUDIO_PERIOD_NS"
  using duty_int_range [of "clip8 (c_div (sint sample * uint (current_volume st)) 256) + 128"]
  by (simp add: audio_sample_to_pwm_int PWM_AUDIO_PERIOD_NS_value)

text \<open>
  C6. At a fixed stored volume above 0 the codec is monotone: of two samples, read as
  signed 16-bit values, the smaller never gets the larger pulse width.
\<close>

theorem audio_sample_to_pwm_mono:
  assumes "0 < uint (current_volume st)"
      and "sint s1 \<le> sint s2"
  shows "audio_sample_to_pwm st s1 \<le> audio_sample_to_pwm st s2"
proof -
  from assms have "sint s1 * uint (current_volume st) \<le> sint s2 * uint (current_volume st)"
    by (intro mult_right_mono) auto
  then show ?thesis
    unfolding word_le_def audio_sample_to_pwm_int
    by (intro duty_int_mono add_right_mono clip8_mono c_div_256_mono)
qed

theorem audio_sample_to_pwm_mono_witness:
  "0 < uint (current_volume engine_boot)
   \<and> sint (- 100 :: 16 word) \<le> sint (100 :: 16 word)
   \<and> audio_sample_to_pwm engine_boot (- 100) \<le> audio_sample_to_pwm engine_boot 100
   \<and> audio_sample_to_pwm engine_boot (- 100) = 226
   \<and> audio_sample_to_pwm engine_boot 100 = 773"
proof -
  have v: "audio_sample_to_pwm engine_boot (- 100) = 226"
    "audio_sample_to_pwm engine_boot 100 = 773"
    by (simp_all add: audio_sample_to_pwm_def engine_boot_def PWM_AUDIO_MAX_VOLUME_def
          PWM_AUDIO_PERIOD_NS_value c_div_def Let_def)
  show ?thesis
    using v audio_sample_to_pwm_mono [of engine_boot "- 100" 100]
    by (simp add: engine_boot_def PWM_AUDIO_MAX_VOLUME_def)
qed

section \<open>Theorems about the volume invariant\<close>

lemma hw_volume [simp]: "current_volume (snd (hw drv c st)) = current_volume st"
  by (simp add: hw_def)

lemma pwm_set_volume [simp]: "current_volume (snd (pwm_set drv dev p st)) = current_volume st"
  by (simp add: pwm_set_def)

lemma set_volume_ok: "volume_ok (pwm_audio_set_volume v st)"
  by (simp add: volume_ok_def pwm_audio_set_volume_def PWM_AUDIO_MAX_VOLUME_def Let_def)

lemma play_mono_loop_volume:
  "play_mono_loop drv buffer samples i st = Some (r, st') \<Longrightarrow> current_volume st' = current_volume st"
proof (induction drv buffer samples i st rule: play_mono_loop.induct)
  case (1 drv buffer samples i st)
  show ?case
  proof (cases "i < samples \<and> i < length buffer")
    case False
    then show ?thesis
      using "1.prems" by (auto simp: play_mono_loop.simps [of drv buffer samples i st] split: if_splits)
  next
    case True
    obtain e1 s1 where l: "pwm_set drv pwm_audio_l (audio_sample_to_pwm st (buffer ! i)) st = (e1, s1)"
      by (cases "pwm_set drv pwm_audio_l (audio_sample_to_pwm st (buffer ! i)) st")
    obtain e2 s2 where r: "pwm_set drv pwm_audio_r (audio_sample_to_pwm st (buffer ! i)) s1 = (e2, s2)"
      by (cases "pwm_set drv pwm_audio_r (audio_sample_to_pwm st (buffer ! i)) s1")
    have v1: "current_volume s1 = current_volume st"
      using pwm_set_volume [of drv pwm_audio_l _ st] l by (metis snd_conv)
    have v2: "current_volume s2 = current_volume s1"
      using pwm_set_volume [of drv pwm_audio_r _ s1] r by (metis snd_conv)
    show ?thesis
    proof (cases "e1 = 0 \<and> e2 = 0")
      case False
      then show ?thesis
        using "1.prems" True l r v1 v2
        by (auto simp: play_mono_loop.simps [of drv buffer samples i st] Let_def split: if_splits)
    next
      case ok: True
      have "play_mono_loop drv buffer samples (i + 1) s2 = Some (r, st')"
        using "1.prems" True l r ok
        by (simp add: play_mono_loop.simps [of drv buffer samples i st] Let_def)
      then have "current_volume st' = current_volume s2"
        using "1.IH" [OF _ _ refl refl l [symmetric] refl _ r [symmetric] refl] True ok by simp
      then show ?thesis
        using v1 v2 by simp
    qed
  qed
qed

lemma play_loop_volume:
  "play_loop drv buffer samples i st = Some (r, st') \<Longrightarrow> current_volume st' = current_volume st"
proof (induction drv buffer samples i st rule: play_loop.induct)
  case (1 drv buffer samples i st)
  show ?case
  proof (cases "(i < samples \<and> i + 1 < samples) \<and> i + 1 < length buffer")
    case False
    then show ?thesis
      using "1.prems" by (auto simp: play_loop.simps [of drv buffer samples i st] split: if_splits)
  next
    case True
    obtain e1 s1 where l: "pwm_set drv pwm_audio_l (audio_sample_to_pwm st (buffer ! i)) st = (e1, s1)"
      by (cases "pwm_set drv pwm_audio_l (audio_sample_to_pwm st (buffer ! i)) st")
    obtain e2 s2 where r: "pwm_set drv pwm_audio_r (audio_sample_to_pwm st (buffer ! (i + 1))) s1 = (e2, s2)"
      by (cases "pwm_set drv pwm_audio_r (audio_sample_to_pwm st (buffer ! (i + 1))) s1")
    have v1: "current_volume s1 = current_volume st"
      using pwm_set_volume [of drv pwm_audio_l _ st] l by (metis snd_conv)
    have v2: "current_volume s2 = current_volume s1"
      using pwm_set_volume [of drv pwm_audio_r _ s1] r by (metis snd_conv)
    show ?thesis
    proof (cases "e1 = 0 \<and> e2 = 0")
      case False
      then show ?thesis
        using "1.prems" True l r v1 v2
        by (auto simp: play_loop.simps [of drv buffer samples i st] Let_def split: if_splits)
    next
      case ok: True
      have "play_loop drv buffer samples (i + 2) s2 = Some (r, st')"
        using "1.prems" True l r ok
        by (simp add: play_loop.simps [of drv buffer samples i st] Let_def)
      then have "current_volume st' = current_volume s2"
        using "1.IH" [OF _ _ refl refl refl refl l [symmetric] refl _ r [symmetric] refl] True ok
        by simp
      then show ?thesis
        using v1 v2 by simp
    qed
  qed
qed

lemma pwm_audio_play_mono_volume:
  "pwm_audio_play_mono drv buffer samples st = Some (r, st') \<Longrightarrow>
   current_volume st' = current_volume st"
  by (auto simp: pwm_audio_play_mono_def dest: play_mono_loop_volume split: if_splits)

lemma pwm_audio_play_volume:
  "pwm_audio_play drv buffer samples st = Some (r, st') \<Longrightarrow>
   current_volume st' = current_volume st"
  by (auto simp: pwm_audio_play_def dest: play_loop_volume split: if_splits)

lemma pam8403_set_gain_volume [simp]:
  "current_volume (pam8403_set_gain drv g st) = current_volume st"
  by (simp add: pam8403_set_gain_def Let_def hw_def split: prod.splits)

lemma pam8403_init_volume:
  "pam8403_init drv st = (r, st') \<Longrightarrow> current_volume st' = current_volume st"
  by (auto simp: pam8403_init_def pam8403_wakeup_def Let_def hw_def split: prod.splits if_splits)

lemma pwm_audio_init_volume:
  "pwm_audio_init drv st = (r, st') \<Longrightarrow> current_volume st' = current_volume st"
  by (auto simp: pwm_audio_init_def Let_def pwm_set_def hw_def
      split: prod.splits if_splits dest!: pam8403_init_volume)

lemma mute_ramp_callback_ok: "volume_ok (mute_ramp_callback drv st)"
  by (simp add: mute_ramp_callback_def Let_def pwm_set_def hw_def pwm_audio_set_volume_def
        volume_ok_def PWM_AUDIO_MAX_VOLUME_def)

lemma test_sine_wave_ok:
  assumes "volume_ok st" "pwm_audio_test_sine_wave drv wave v d st = Some (r, st')"
  shows "volume_ok st'"
  using assms
  by (auto simp: pwm_audio_test_sine_wave_def Let_def hw_def set_volume_ok volume_ok_def
        pwm_audio_set_volume_def PWM_AUDIO_MAX_VOLUME_def
      split: if_splits prod.splits option.splits)

lemma test_sweep_volume:
  "pwm_audio_test_sweep drv wave d st = Some (r, st') \<Longrightarrow> current_volume st' = current_volume st"
  by (auto simp: pwm_audio_test_sweep_def Let_def hw_def
      dest!: pwm_audio_play_mono_volume split: if_splits prod.splits)

lemma test_white_noise_volume:
  "pwm_audio_test_white_noise drv wave d st = Some (r, st') \<Longrightarrow>
   current_volume st' = current_volume st"
  by (auto simp: pwm_audio_test_white_noise_def Let_def hw_def
      dest!: pwm_audio_play_mono_volume split: if_splits prod.splits)

lemma engine_step_ok:
  assumes "volume_ok st" "engine_step drv op st = Some st'"
  shows "volume_ok st'"
proof (cases op)
  case Init
  then show ?thesis
    using assms pwm_audio_init_volume [of drv st "fst (pwm_audio_init drv st)" st']
    by (auto simp: volume_ok_def)
next
  case (Play buffer samples)
  then show ?thesis using assms by (auto simp: volume_ok_def dest: pwm_audio_play_volume)
next
  case (Play_mono buffer samples)
  then show ?thesis using assms by (auto simp: volume_ok_def dest: pwm_audio_play_mono_volume)
next
  case Mute
  then show ?thesis
    using assms by (auto simp: volume_ok_def pwm_audio_mute_def k_timer_start_def)
next
  case Unmute
  then show ?thesis
    using assms by (auto simp: volume_ok_def pwm_audio_unmute_def k_timer_start_def)
next
  case (Set_volume v)
  then show ?thesis using assms by (auto simp: set_volume_ok)
next
  case Timer_expiry
  then show ?thesis
    using assms by (auto simp: mute_ramp_timer_expiry_def mute_ramp_callback_ok split: option.splits)
next
  case (Test_sine_wave wave v d)
  then show ?thesis using assms by (auto dest: test_sine_wave_ok)
next
  case (Test_sweep wave d)
  then show ?thesis using assms by (auto simp: volume_ok_def dest: test_sweep_volume)
next
  case (Test_white_noise wave d)
  then show ?thesis using assms by (auto simp: volume_ok_def dest: test_white_noise_volume)
next
  case Amp_shutdown
  then show ?thesis using assms by (auto simp: volume_ok_def pam8403_shutdown_def)
next
  case Amp_wakeup
  then show ?thesis using assms by (auto simp: volume_ok_def pam8403_wakeup_def)
next
  case (Amp_set_gain g)
  then show ?thesis using assms by (auto simp: volume_ok_def)
qed

lemma engine_run_ok:
  "volume_ok st \<Longrightarrow> engine_run drv ops st = Some st' \<Longrightarrow> volume_ok st'"
proof (induction ops arbitrary: st)
  case Nil
  then show ?case by simp
next
  case (Cons op ops)
  then show ?case
    by (auto split: option.splits dest: engine_step_ok)
qed

lemma engine_boot_ok: "volume_ok engine_boot"
  by (simp add: volume_ok_def engine_boot_def PWM_AUDIO_MAX_VOLUME_def)

text \<open>
  C8. The stored volume lies between 0 and \<open>PWM_AUDIO_MAX_VOLUME\<close>, which is 180, at
  power-on; every operation of the engine that returns keeps it there, and so does every
  run of operations from power-on; \<open>pwm_audio_set_volume v\<close> stores the smaller of
  \<open>v\<close> and \<open>PWM_AUDIO_MAX_VOLUME\<close> for every 8-bit \<open>v\<close>.
\<close>

theorem engine_volume_invariant:
  "PWM_AUDIO_MAX_VOLUME = 180
   \<and> volume_ok engine_boot
   \<and> (volume_ok st \<longrightarrow> engine_step drv op st = Some st' \<longrightarrow> volume_ok st')
   \<and> (engine_run drv ops engine_boot = Some st'' \<longrightarrow> volume_ok st'')
   \<and> uint (current_volume (pwm_audio_set_volume v st)) = min (uint v) PWM_AUDIO_MAX_VOLUME"
proof -
  have "uint (current_volume (pwm_audio_set_volume v st)) = min (uint v) PWM_AUDIO_MAX_VOLUME"
    by (simp add: pwm_audio_set_volume_def Let_def PWM_AUDIO_MAX_VOLUME_def min_def)
  then show ?thesis
    using engine_boot_ok engine_step_ok [of st drv op st'] engine_run_ok [of engine_boot drv ops st'']
    by (simp add: PWM_AUDIO_MAX_VOLUME_def)
qed

theorem engine_volume_invariant_witness:
  "volume_ok engine_boot
   \<and> engine_step drv_ok (Set_volume 255) engine_boot = Some (engine_boot\<lparr>current_volume := 180\<rparr>)
   \<and> volume_ok (engine_boot\<lparr>current_volume := 180\<rparr>)
   \<and> engine_run drv_ok [Set_volume 200, Set_volume 7] engine_boot
       = Some (engine_boot\<lparr>current_volume := 7\<rparr>)
   \<and> volume_ok (engine_boot\<lparr>current_volume := 7\<rparr>)
   \<and> uint (current_volume (pwm_audio_set_volume 255 engine_boot)) = 180"
proof -
  have a: "engine_step drv_ok (Set_volume 255) engine_boot
             = Some (engine_boot\<lparr>current_volume := 180\<rparr>)"
    by (simp add: pwm_audio_set_volume_def PWM_AUDIO_MAX_VOLUME_def)
  have b: "engine_run drv_ok [Set_volume 200, Set_volume 7] engine_boot
             = Some (engine_boot\<lparr>current_volume := 7\<rparr>)"
    by (simp add: pwm_audio_set_volume_def PWM_AUDIO_MAX_VOLUME_def)
  show ?thesis
    using a b
      engine_volume_invariant [of engine_boot drv_ok "Set_volume 255"
        "engine_boot\<lparr>current_volume := 180\<rparr>" "[Set_volume 200, Set_volume 7]"
        "engine_boot\<lparr>current_volume := 7\<rparr>" 255]
    by (simp add: PWM_AUDIO_MAX_VOLUME_def)
qed

section \<open>Theorems about the playback guards\<close>

text \<open>
  C7. \<open>pwm_audio_play\<close> and \<open>pwm_audio_play_mono\<close> return \<open>-ENODEV\<close>, which is
  -19, when the engine is not initialised. When it is initialised and muted they return 0.
  In both cases the state comes back as it was, the record of driver calls included: no
  duty cycle is written to either channel.
\<close>

theorem play_guards:
  "ENODEV = 19
   \<and> (\<not> is_initialized st \<longrightarrow>
        pwm_audio_play drv buffer samples st = Some (- ENODEV, st)
        \<and> pwm_audio_play_mono drv buffer samples st = Some (- ENODEV, st))
   \<and> (is_initialized st \<and> is_muted st \<longrightarrow>
        pwm_audio_play drv buffer samples st = Some (0, st)
        \<and> pwm_audio_play_mono drv buffer samples st = Some (0, st))"
  by (simp add: pwm_audio_play_def pwm_audio_play_mono_def ENODEV_def)

theorem play_guards_witness:
  "\<not> is_initialized engine_boot
   \<and> pwm_audio_play drv_ok [1, 2] 2 engine_boot = Some (- 19, engine_boot)
   \<and> pwm_audio_play_mono drv_ok [1, 2] 2 engine_boot = Some (- 19, engine_boot)
   \<and> is_initialized (engine_boot\<lparr>is_muted := True, is_initialized := True\<rparr>)
   \<and> is_muted (engine_boot\<lparr>is_muted := True, is_initialized := True\<rparr>)
   \<and> pwm_audio_play drv_ok [1, 2] 2 (engine_boot\<lparr>is_muted := True, is_initialized := True\<rparr>)
       = Some (0, engine_boot\<lparr>is_muted := True, is_initialized := True\<rparr>)
   \<and> pwm_audio_play_mono drv_ok [1, 2] 2 (engine_boot\<lparr>is_muted := True, is_initialized := True\<rparr>)
       = Some (0, engine_boot\<lparr>is_muted := True, is_initialized := True\<rparr>)"
  using play_guards [of engine_boot drv_ok "[1, 2]" 2]
    play_guards [of "engine_boot\<lparr>is_muted := True, is_initialized := True\<rparr>" drv_ok "[1, 2]" 2]
  by (simp add: engine_boot_def)

section \<open>Theorems about the anti-pop ramp\<close>

lemma uint_of_nat8: "j < 256 \<Longrightarrow> uint (of_nat j :: 8 word) = int j"
  by (simp add: uint_word_of_int unsigned_of_nat take_bit_nat_eq_self)

lemma uint_9j: "j < 20 \<Longrightarrow> uint (9 * word_of_nat j :: 8 word) = 9 * int j"
  using uint_of_nat8[of "9 * j"] by simp

lemma uint_succ8: "uint (r :: 8 word) = int j \<Longrightarrow> j < 20 \<Longrightarrow> uint (r + 1) = int j + 1"
  by (simp add: uint_plus_if_size word_size)

lemma c_div_ramp: "c_div (180 * int j) 20 = 9 * int j"
  by (simp add: c_div_def)

lemma unmute_tick:
  assumes "uint (ramp_step st) = int j" "j < 20"
    and "j = 0 \<longrightarrow> \<not> is_muted st"
    and "0 < j \<longrightarrow> target_volume st = 180 \<and> \<not> ramping_to_mute st"
    and "mute_ramp_timer st = Some p"
  shows "mute_ramp_timer_expiry drv st =
           st\<lparr>current_volume := 9 * of_nat j,
              ramp_step := (if j = 19 then 0 else ramp_step st + 1),
              target_volume := 180, ramping_to_mute := False,
              mute_ramp_timer := (if j = 19 then None else Some p)\<rparr>"
proof (cases "j = 0")
  case True
  then have r: "ramp_step st = 0" using assms(1) by (simp add: word_uint_eq_iff)
  show ?thesis
    using assms True
    by (simp add: mute_ramp_timer_expiry_def mute_ramp_callback_def Let_def r c_div_def
          pwm_audio_set_volume_def PWM_AUDIO_MAX_VOLUME_def PWM_AUDIO_MUTE_RAMP_STEPS_def)
next
  case False
  then have r: "ramp_step st \<noteq> 0" using assms(1) by (auto simp add: word_uint_eq_iff)
  show ?thesis
    using assms False
    by (simp add: mute_ramp_timer_expiry_def mute_ramp_callback_def Let_def r c_div_ramp
          uint_9j uint_succ8
          pwm_audio_set_volume_def PWM_AUDIO_MAX_VOLUME_def PWM_AUDIO_MUTE_RAMP_STEPS_def)
qed

lemma ramp_period: "c_div PWM_AUDIO_MUTE_RAMP_MS PWM_AUDIO_MUTE_RAMP_STEPS = 5"
  by (simp add: c_div_def PWM_AUDIO_MUTE_RAMP_MS_def PWM_AUDIO_MUTE_RAMP_STEPS_def)

lemma unmute_ramp_state:
  assumes "is_initialized st" "is_muted st" "ramp_step st = 0" "n < 20"
  shows "(mute_ramp_timer_expiry drv ^^ Suc n) (pwm_audio_unmute st) =
           st\<lparr>current_volume := 9 * of_nat n,
              is_muted := False,
              ramp_step := (if n = 19 then 0 else of_nat (Suc n)),
              target_volume := 180, ramping_to_mute := False,
              mute_ramp_timer := (if n = 19 then None else Some 5)\<rparr>"
  using assms(4)
proof (induction n)
  case 0
  show ?case
    using assms(1-3)
    by (simp add: pwm_audio_unmute_def k_timer_start_def ramp_period
          unmute_tick [where j = 0 and p = 5])
next
  case (Suc n)
  then have n: "n < 19" by simp
  let ?s = "st\<lparr>current_volume := 9 * of_nat n, is_muted := False,
              ramp_step := of_nat (Suc n),
              target_volume := 180, ramping_to_mute := False,
              mute_ramp_timer := Some 5\<rparr>"
  have prev: "(mute_ramp_timer_expiry drv ^^ Suc n) (pwm_audio_unmute st) = ?s"
    using Suc n by simp
  have r: "uint (ramp_step ?s) = int (Suc n)"
    using n uint_of_nat8 [of "Suc n"] by simp
  have "(mute_ramp_timer_expiry drv ^^ Suc (Suc n)) (pwm_audio_unmute st) =
          mute_ramp_timer_expiry drv ?s"
    using prev by simp
  also have "\<dots> = ?s\<lparr>current_volume := 9 * of_nat (Suc n),
              ramp_step := (if Suc n = 19 then 0 else ramp_step ?s + 1),
              target_volume := 180, ramping_to_mute := False,
              mute_ramp_timer := (if Suc n = 19 then None else Some 5)\<rparr>"
    using n by (intro unmute_tick [OF r]) auto
  finally show ?case
    by simp
qed

lemma mute_tick:
  assumes "uint (ramp_step st) = int j" "j < 20"
    and "j = 0 \<longrightarrow> is_muted st"
    and "0 < j \<longrightarrow> target_volume st = 0 \<and> ramping_to_mute st"
    and "mute_ramp_timer st = Some p"
    and "uint (current_volume st) \<le> 180"
  shows "mute_ramp_timer_expiry drv st =
           (if j = 19
            then st\<lparr>ramp_step := 0, target_volume := 0, ramping_to_mute := True,
                    mute_ramp_timer := None,
                    hw_trace := hw_trace st @ [Pwm_set pwm_audio_l 1000 500,
                                               Pwm_set pwm_audio_r 1000 500]\<rparr>
            else st\<lparr>ramp_step := ramp_step st + 1, target_volume := 0,
                    ramping_to_mute := True\<rparr>)"
proof (cases "j = 0")
  case True
  then have r: "ramp_step st = 0" using assms(1) by (simp add: word_uint_eq_iff)
  show ?thesis
    using assms True
    by (simp add: mute_ramp_timer_expiry_def mute_ramp_callback_def Let_def r c_div_def
          pwm_audio_set_volume_def PWM_AUDIO_MAX_VOLUME_def PWM_AUDIO_MUTE_RAMP_STEPS_def)
next
  case False
  then have r: "ramp_step st \<noteq> 0" using assms(1) by (auto simp add: word_uint_eq_iff)
  show ?thesis
    using assms False
    by (simp add: mute_ramp_timer_expiry_def mute_ramp_callback_def Let_def r c_div_def
          uint_succ8 pwm_set_def hw_def PWM_AUDIO_PERIOD_NS_value
          pwm_audio_set_volume_def PWM_AUDIO_MAX_VOLUME_def PWM_AUDIO_MUTE_RAMP_STEPS_def)
qed

lemma mute_ramp_state:
  assumes "is_initialized st" "\<not> is_muted st" "ramp_step st = 0"
    and "uint (current_volume st) \<le> 180" "n < 20"
  shows "(mute_ramp_timer_expiry drv ^^ Suc n) (pwm_audio_mute st) =
           (if n = 19
            then st\<lparr>is_muted := True, ramp_step := 0, target_volume := 0,
                    ramping_to_mute := True, mute_ramp_timer := None,
                    hw_trace := hw_trace st @ [Pwm_set pwm_audio_l 1000 500,
                                               Pwm_set pwm_audio_r 1000 500]\<rparr>
            else st\<lparr>is_muted := True, ramp_step := of_nat (Suc n), target_volume := 0,
                    ramping_to_mute := True, mute_ramp_timer := Some 5\<rparr>)"
  using assms(5)
proof (induction n)
  case 0
  show ?case
    using assms(1-4)
    by (simp add: pwm_audio_mute_def k_timer_start_def ramp_period
          mute_tick [where j = 0 and p = 5])
next
  case (Suc n)
  then have n: "n < 19" by simp
  let ?s = "st\<lparr>is_muted := True, ramp_step := of_nat (Suc n), target_volume := 0,
                    ramping_to_mute := True, mute_ramp_timer := Some 5\<rparr>"
  have prev: "(mute_ramp_timer_expiry drv ^^ Suc n) (pwm_audio_mute st) = ?s"
    using Suc n by simp
  have r: "uint (ramp_step ?s) = int (Suc n)"
    using n uint_of_nat8 [of "Suc n"] by simp
  have "(mute_ramp_timer_expiry drv ^^ Suc (Suc n)) (pwm_audio_mute st) =
          mute_ramp_timer_expiry drv ?s"
    using prev by simp
  also have "\<dots> = (if Suc n = 19
            then ?s\<lparr>ramp_step := 0, target_volume := 0, ramping_to_mute := True,
                    mute_ramp_timer := None,
                    hw_trace := hw_trace ?s @ [Pwm_set pwm_audio_l 1000 500,
                                               Pwm_set pwm_audio_r 1000 500]\<rparr>
            else ?s\<lparr>ramp_step := ramp_step ?s + 1, target_volume := 0,
                    ramping_to_mute := True\<rparr>)"
    using n assms(4) by (intro mute_tick [OF r, where p = 5]) auto
  finally show ?case
    by simp
qed


lemma pwm_audio_init_drv_ok:
  "pwm_audio_init drv_ok engine_boot =
     (0, engine_boot\<lparr>is_muted := True, is_initialized := True,
           hw_trace := [Device_is_ready pwm_audio_l, Device_is_ready pwm_audio_r,
                        Pwm_set pwm_audio_l 1000 500, Pwm_set pwm_audio_r 1000 500,
                        Gpio_is_ready pam8403_shutdown_pin,
                        Gpio_pin_configure pam8403_shutdown_pin,
                        Gpio_is_ready pam8403_gain0_pin, Gpio_pin_configure pam8403_gain0_pin,
                        Gpio_is_ready pam8403_gain1_pin, Gpio_pin_configure pam8403_gain1_pin,
                        Gpio_is_ready pam8403_gain0_pin, Gpio_pin_set pam8403_gain0_pin 1,
                        Gpio_is_ready pam8403_gain1_pin, Gpio_pin_set pam8403_gain1_pin 0,
                        Gpio_pin_set pam8403_shutdown_pin 1]\<rparr>)"
  by (simp add: pwm_audio_init_def pam8403_init_def pam8403_set_gain_def pam8403_wakeup_def
        hw_def pwm_set_def drv_ok_def engine_boot_def Let_def PWM_AUDIO_PERIOD_NS_value
        PAM8403_GAIN_15DB_def)


lemma engine_playing_state:
  "engine_playing =
     (snd (pwm_audio_init drv_ok engine_boot))
       \<lparr>current_volume := 180, is_muted := False, ramp_step := 0, target_volume := 180,
        ramping_to_mute := False, mute_ramp_timer := None\<rparr>"
proof -
  have a: "is_initialized (snd (pwm_audio_init drv_ok engine_boot))"
    and b: "is_muted (snd (pwm_audio_init drv_ok engine_boot))"
    and c: "ramp_step (snd (pwm_audio_init drv_ok engine_boot)) = 0"
    by (simp_all add: pwm_audio_init_drv_ok) (simp add: engine_boot_def)
  show ?thesis
    unfolding engine_playing_def
    using unmute_ramp_state [OF a b c, of 19 drv_ok]
    by (simp add: pwm_audio_set_volume_def PWM_AUDIO_MAX_VOLUME_def del: funpow.simps)
qed

text \<open>
  C2, evaluated on the engine playing at full volume. A mute request followed by the 20
  ticks of the ramp stops the timer, resets the step counter and ends with the two calls
  that set both channels to \<open>PWM_AUDIO_PERIOD_NS / 2\<close>; the stored volume is still 180
  after them, as it is after every tick: with the target 0 the decrement
  \<open>target_volume * ramp_step / PWM_AUDIO_MUTE_RAMP_STEPS\<close> is 0 at each step.
\<close>

theorem mute_ramp_leaves_volume:
  "is_initialized engine_playing
   \<and> \<not> is_muted engine_playing
   \<and> ramp_step engine_playing = 0
   \<and> mute_ramp_timer engine_playing = None
   \<and> current_volume engine_playing = 180
   \<and> current_volume ((mute_ramp_timer_expiry drv_ok ^^ 20) (pwm_audio_mute engine_playing)) = 180
   \<and> current_volume ((mute_ramp_timer_expiry drv_ok ^^ 20) (pwm_audio_mute engine_playing)) \<noteq> 0
   \<and> is_muted ((mute_ramp_timer_expiry drv_ok ^^ 20) (pwm_audio_mute engine_playing))
   \<and> mute_ramp_timer ((mute_ramp_timer_expiry drv_ok ^^ 20) (pwm_audio_mute engine_playing)) = None
   \<and> ramp_step ((mute_ramp_timer_expiry drv_ok ^^ 20) (pwm_audio_mute engine_playing)) = 0
   \<and> hw_trace ((mute_ramp_timer_expiry drv_ok ^^ 20) (pwm_audio_mute engine_playing))
       = hw_trace engine_playing @ [Pwm_set pwm_audio_l 1000 500, Pwm_set pwm_audio_r 1000 500]"
proof -
  have a: "is_initialized engine_playing" and b: "\<not> is_muted engine_playing"
    and c: "ramp_step engine_playing = 0" and d: "uint (current_volume engine_playing) \<le> 180"
    and e: "mute_ramp_timer engine_playing = None" and f: "current_volume engine_playing = 180"
    by (simp_all add: engine_playing_state pwm_audio_init_drv_ok)
  show ?thesis
    using a b c e f mute_ramp_state [OF a b c d, of 19 drv_ok]
    by (simp del: funpow.simps)
qed




section \<open>Theorems about the audio file store\<close>

text \<open>
  C5, as the source has it. File 1 is named \<open>audio/a01.txt\<close> and file 42
  \<open>audio/a42.txt\<close>; 100 is rejected with a null pointer, as is every number above 99,
  and only those: 0 is accepted and named \<open>audio/a00.txt\<close>.
\<close>

theorem generate_new_audio_header_names:
  "generate_new_audio_header 1 = Some ''audio/a01.txt''
   \<and> generate_new_audio_header 42 = Some ''audio/a42.txt''
   \<and> generate_new_audio_header 100 = None
   \<and> generate_new_audio_header 0 = Some ''audio/a00.txt''
   \<and> (generate_new_audio_header num = None) = (99 < uint num)"
  by (simp add: generate_new_audio_header_def char_of_def)

text \<open>C5 as stated fails at 0: the function returns a name, not the failure value.\<close>

theorem generate_new_audio_header_zero_not_rejected:
  "generate_new_audio_header 0 \<noteq> None"
  by (simp add: generate_new_audio_header_def)

text \<open>
  C9. \<open>move_read_pointer\<close> and \<open>move_write_pointer\<close> return -1 exactly when the
  \<open>fs_stat\<close> call on the path formatted for the number fails. Then the cursor
  (\<open>current_read_file\<close>, \<open>current_write_file\<close>) is as before; otherwise they return
  0 and the cursor is the number.
\<close>

theorem move_pointer_invalid_file:
  "(fst (move_read_pointer pf n st) = - 1
      \<longleftrightarrow> fs pf (fs_trace st) (Fs_stat (audio_path pf n)) \<noteq> 0)
   \<and> (fst (move_read_pointer pf n st) = - 1 \<longrightarrow>
        current_read_file (snd (move_read_pointer pf n st)) = current_read_file st)
   \<and> (fst (move_read_pointer pf n st) \<noteq> - 1 \<longrightarrow>
        fst (move_read_pointer pf n st) = 0
        \<and> current_read_file (snd (move_read_pointer pf n st)) = n)
   \<and> (fst (move_write_pointer pf n st) = - 1
      \<longleftrightarrow> fs pf (fs_trace st) (Fs_stat (audio_path pf n)) \<noteq> 0)
   \<and> (fst (move_write_pointer pf n st) = - 1 \<longrightarrow>
        current_write_file (snd (move_write_pointer pf n st)) = current_write_file st)
   \<and> (fst (move_write_pointer pf n st) \<noteq> - 1 \<longrightarrow>
        fst (move_write_pointer pf n st) = 0
        \<and> current_write_file (snd (move_write_pointer pf n st)) = n)"
  by (simp add: move_read_pointer_def move_write_pointer_def Let_def fs_call_def audio_path_def)

lemma audio_path_3: "audio_path fs_only_a03 3 = ''/SD:audio/a03.txt''"
  by (simp add: audio_path_def snprintf_ss_def generate_new_audio_header_def char_of_def
        MAX_PATH_def SD_MOUNT_PT_def)

lemma audio_path_7: "audio_path fs_only_a03 7 = ''/SD:audio/a07.txt''"
  by (simp add: audio_path_def snprintf_ss_def generate_new_audio_header_def char_of_def
        MAX_PATH_def SD_MOUNT_PT_def)

theorem move_pointer_invalid_file_witness:
  "fst (move_read_pointer fs_only_a03 7 store_five) = - 1
   \<and> current_read_file (snd (move_read_pointer fs_only_a03 7 store_five)) = 3
   \<and> fst (move_write_pointer fs_only_a03 7 store_five) = - 1
   \<and> current_write_file (snd (move_write_pointer fs_only_a03 7 store_five)) = 5
   \<and> fst (move_read_pointer fs_only_a03 3 (store_five\<lparr>current_read_file := 1\<rparr>)) = 0
   \<and> current_read_file
        (snd (move_read_pointer fs_only_a03 3 (store_five\<lparr>current_read_file := 1\<rparr>))) = 3
   \<and> fst (move_write_pointer fs_only_a03 3 store_five) = 0
   \<and> current_write_file (snd (move_write_pointer fs_only_a03 3 store_five)) = 3"
proof -
  have s7: "fs fs_only_a03 (fs_trace st) (Fs_stat (audio_path fs_only_a03 7)) \<noteq> 0" for st
    by (simp add: audio_path_7) (simp add: fs_only_a03_def)
  have s3: "fs fs_only_a03 (fs_trace st) (Fs_stat (audio_path fs_only_a03 3)) = 0" for st
    by (simp add: audio_path_3) (simp add: fs_only_a03_def)
  have c: "current_read_file store_five = 3" "current_write_file store_five = 5"
    by (simp_all add: store_five_def)
  show ?thesis
    using move_pointer_invalid_file [of fs_only_a03 7 store_five]
      move_pointer_invalid_file [of fs_only_a03 3 "store_five\<lparr>current_read_file := 1\<rparr>"]
      move_pointer_invalid_file [of fs_only_a03 3 store_five]
      s7 [of store_five] s3 [of store_five] s3 [of "store_five\<lparr>current_read_file := 1\<rparr>"] c
    by simp
qed

lemma accepts_append:
  "accepts pf trace (xs @ ys) \<longleftrightarrow> accepts pf trace xs \<and> accepts pf (trace @ xs) ys"
  by (induction xs arbitrary: trace) auto

lemma delete_audio_file_ok:
  assumes "fs pf (fs_trace st) (Fs_unlink (audio_path pf i)) = 0"
  shows "delete_audio_file pf i st =
           (0, st\<lparr>current_full_path := audio_path pf i,
                  fs_trace := fs_trace st @ [Fs_unlink (audio_path pf i)]\<rparr>)"
  using assms by (simp add: delete_audio_file_def Let_def fs_call_def audio_path_def)

lemma clear_loop_ok:
  "unat i = n \<Longrightarrow> accepts pf (fs_trace st) (unlinks pf n) \<Longrightarrow>
   fst (clear_loop pf i st) = 0
   \<and> fs_trace (snd (clear_loop pf i st)) = fs_trace st @ unlinks pf n
   \<and> file_count (snd (clear_loop pf i st)) = file_count st
   \<and> current_read_file (snd (clear_loop pf i st)) = current_read_file st
   \<and> current_write_file (snd (clear_loop pf i st)) = current_write_file st
   \<and> read_buffer (snd (clear_loop pf i st)) = read_buffer st
   \<and> write_buffer (snd (clear_loop pf i st)) = write_buffer st"
proof (induction n arbitrary: i st)
  case 0
  then have "i = 0"
    by (simp add: unat_eq_zero)
  then show ?case
    by (simp add: clear_loop.simps [of pf 0 st] unlinks_def)
next
  case (Suc n)
  then have pos: "0 < i"
    by (auto simp: word_gt_0)
  have pred: "unat (i - 1) = n"
    using Suc.prems pos by (simp add: unat_minus_one word_gt_0)
  have i: "i = of_nat (Suc n)"
    using Suc.prems by (metis of_nat_unat ucast_id)
  let ?st = "st\<lparr>current_full_path := audio_path pf i,
                  fs_trace := fs_trace st @ [Fs_unlink (audio_path pf i)]\<rparr>"
  have u: "unlinks pf (Suc n) = Fs_unlink (audio_path pf i) # unlinks pf n"
    unfolding unlinks_def i by simp
  have first: "fs pf (fs_trace st) (Fs_unlink (audio_path pf i)) = 0"
    and rest: "accepts pf (fs_trace ?st) (unlinks pf n)"
    using Suc.prems(2) by (simp_all add: u)
  have step: "clear_loop pf i st = clear_loop pf (i - 1) ?st"
    using pos by (simp add: clear_loop.simps [of pf i st] delete_audio_file_ok [OF first])
  show ?case
    unfolding step using Suc.IH [OF pred rest] by (simp add: u)
qed

lemma audio_path_1: "audio_path pf 1 = ''/SD:audio/a01.txt''"
  by (simp add: audio_path_def snprintf_ss_def generate_new_audio_header_def char_of_def
        MAX_PATH_def SD_MOUNT_PT_def)

lemma create_file_a01:
  "create_file pf ''audio/a01.txt'' st =
     (if fs pf (fs_trace st) (Fs_open ''/SD:audio/a01.txt'') \<noteq> 0
      then (- 2, st\<lparr>current_full_path := ''/SD:audio/a01.txt'',
                    fs_trace := fs_trace st @ [Fs_open ''/SD:audio/a01.txt'']\<rparr>)
      else (0, st\<lparr>current_full_path := ''/SD:audio/a01.txt'',
                  fs_trace := fs_trace st @ [Fs_open ''/SD:audio/a01.txt'', Fs_close]\<rparr>))"
  by (simp add: create_file_def Let_def fs_call_def snprintf_ss_def MAX_PATH_def SD_MOUNT_PT_def)

text \<open>
  What \<open>clear_audio_directory\<close> does with a file count other than 1 when the file
  system answers 0 to each call it makes: the numbered files are deleted from the file count
  down to 1, the directory is removed and created, file 1 is created, and only the write
  cursor is moved.
\<close>

lemma clear_audio_directory_ok:
  assumes n1: "file_count st \<noteq> 1"
    and ok: "accepts pf (fs_trace st)
               (unlinks pf (unat (file_count st)) @
                [Fs_unlink ''/SD:/audio'', Fs_mkdir ''/SD:/audio'',
                 Fs_open ''/SD:audio/a01.txt'', Fs_close, Fs_stat ''/SD:audio/a01.txt''])"
  shows "fst (clear_audio_directory pf st) = 0
         \<and> fs_trace (snd (clear_audio_directory pf st)) =
             fs_trace st @ unlinks pf (unat (file_count st)) @
               [Fs_unlink ''/SD:/audio'', Fs_mkdir ''/SD:/audio'',
                Fs_open ''/SD:audio/a01.txt'', Fs_close, Fs_stat ''/SD:audio/a01.txt'']
         \<and> file_count (snd (clear_audio_directory pf st)) = 1
         \<and> current_write_file (snd (clear_audio_directory pf st)) = 1
         \<and> current_read_file (snd (clear_audio_directory pf st)) = current_read_file st"
proof -
  let ?u = "unlinks pf (unat (file_count st))"
  obtain r s where l: "clear_loop pf (file_count st) st = (r, s)"
    by (cases "clear_loop pf (file_count st) st")
  have u: "accepts pf (fs_trace st) ?u"
    using ok by (simp add: accepts_append)
  have s: "r = 0" "fs_trace s = fs_trace st @ ?u" "current_read_file s = current_read_file st"
    using clear_loop_ok [OF refl u] l by simp_all
  have calls:
    "fs pf (fs_trace st @ ?u) (Fs_unlink ''/SD:/audio'') = 0"
    "fs pf (fs_trace st @ ?u @ [Fs_unlink ''/SD:/audio'']) (Fs_mkdir ''/SD:/audio'') = 0"
    "fs pf (fs_trace st @ ?u @ [Fs_unlink ''/SD:/audio'', Fs_mkdir ''/SD:/audio''])
        (Fs_open ''/SD:audio/a01.txt'') = 0"
    "fs pf (fs_trace st @ ?u @ [Fs_unlink ''/SD:/audio'', Fs_mkdir ''/SD:/audio'',
                                 Fs_open ''/SD:audio/a01.txt'', Fs_close])
        (Fs_stat ''/SD:audio/a01.txt'') = 0"
    using ok by (simp_all add: accepts_append)
  show ?thesis
    using n1 s calls
    by (simp add: clear_audio_directory_def l Let_def fs_call_def create_file_a01
          move_write_pointer_def audio_path_1 [unfolded audio_path_def])
qed

lemma fs_all_ok_answer: "fs fs_all_ok trace c = 0"
  by (simp add: fs_all_ok_def)

text \<open>
  C4, evaluated from the initial statics on a file system where every call succeeds. After
  \<open>move_read_pointer(3)\<close> the read cursor is at file 3. The file count is 0, not 1, so
  \<open>clear_audio_directory\<close> does its work: no numbered file to delete, the directory
  removed and created, \<open>audio/a01.txt\<close> created, the file count set to 1 and
  \<open>move_write_pointer(1)\<close> called. It returns 0 with the write cursor at file 1 and
  the read cursor still at file 3: \<open>move_read_pointer\<close> is never called.
\<close>

theorem clear_audio_directory_keeps_read_cursor:
  "move_read_pointer fs_all_ok 3 store_boot =
     (0, store_boot\<lparr>current_read_file := 3, read_buffer := ''/SD:audio/a03.txt'',
                      fs_trace := [Fs_stat ''/SD:audio/a03.txt'']\<rparr>)
   \<and> clear_audio_directory fs_all_ok (snd (move_read_pointer fs_all_ok 3 store_boot)) =
       (0, store_boot\<lparr>file_count := 1, current_read_file := 3, current_write_file := 1,
                        current_full_path := ''/SD:audio/a01.txt'',
                        read_buffer := ''/SD:audio/a03.txt'',
                        write_buffer := ''/SD:audio/a01.txt'',
                        fs_trace := [Fs_stat ''/SD:audio/a03.txt'',
                                     Fs_unlink ''/SD:/audio'', Fs_mkdir ''/SD:/audio'',
                                     Fs_open ''/SD:audio/a01.txt'', Fs_close,
                                     Fs_stat ''/SD:audio/a01.txt'']\<rparr>)
   \<and> current_write_file
         (snd (clear_audio_directory fs_all_ok (snd (move_read_pointer fs_all_ok 3 store_boot)))) = 1
   \<and> current_read_file
         (snd (clear_audio_directory fs_all_ok (snd (move_read_pointer fs_all_ok 3 store_boot)))) = 3
   \<and> current_read_file
         (snd (clear_audio_directory fs_all_ok (snd (move_read_pointer fs_all_ok 3 store_boot)))) \<noteq> 1"
proof -
  have mv: "move_read_pointer fs_all_ok 3 store_boot =
     (0, store_boot\<lparr>current_read_file := 3, read_buffer := ''/SD:audio/a03.txt'',
                      fs_trace := [Fs_stat ''/SD:audio/a03.txt'']\<rparr>)"
    by (simp add: move_read_pointer_def Let_def fs_call_def fs_all_ok_answer snprintf_ss_def
          generate_new_audio_header_def char_of_def MAX_PATH_def SD_MOUNT_PT_def)
       (simp add: store_boot_def)
  let ?s = "store_boot\<lparr>current_read_file := 3, read_buffer := ''/SD:audio/a03.txt'',
                      fs_trace := [Fs_stat ''/SD:audio/a03.txt'']\<rparr>"
  have fc: "file_count ?s = 0"
    by (simp add: store_boot_def)
  have loop: "clear_loop fs_all_ok 0 ?s = (0, ?s)"
    by (simp add: clear_loop.simps [of fs_all_ok 0])
  have cl: "clear_audio_directory fs_all_ok ?s =
       (0, store_boot\<lparr>file_count := 1, current_read_file := 3, current_write_file := 1,
                        current_full_path := ''/SD:audio/a01.txt'',
                        read_buffer := ''/SD:audio/a03.txt'',
                        write_buffer := ''/SD:audio/a01.txt'',
                        fs_trace := [Fs_stat ''/SD:audio/a03.txt'',
                                     Fs_unlink ''/SD:/audio'', Fs_mkdir ''/SD:/audio'',
                                     Fs_open ''/SD:audio/a01.txt'', Fs_close,
                                     Fs_stat ''/SD:audio/a01.txt'']\<rparr>)"
    by (simp add: clear_audio_directory_def fc loop Let_def fs_call_def fs_all_ok_answer
          create_file_a01 move_write_pointer_def audio_path_1 [unfolded audio_path_def])
  show ?thesis
    unfolding mv using cl by simp
qed

section \<open>Theorems about the stream reassembler\<close>

lemma twice_Cons: "twice (x # xs) = x # x # twice xs"
  by (simp add: twice_def)

lemma twice_replicate: "twice (replicate n x) = replicate (2 * n) x"
  by (induction n) (simp_all add: twice_def)

lemma put_two:
  assumes "ptr2 sp = Some p" "p + 1 < length (rx_buffer sp)"
  shows "Option.bind (put_sample v sp) (put_sample v) =
           Some (sp\<lparr>rx_buffer := (rx_buffer sp)[p := v, p + 1 := v], ptr2 := Some (p + 2)\<rparr>)"
  using assms by (simp add: put_sample_def)

lemma take_two_updates:
  assumes "p + 1 < length xs"
  shows "take (p + 2) (xs[p := v, p + 1 := v]) = take p xs @ [v, v]"
proof -
  have "take (p + 2) (xs[p := v, p + 1 := v]) = take (Suc (Suc p)) (xs[p := v, Suc p := v])"
    by simp
  also have "\<dots> = take (Suc p) (xs[p := v, Suc p := v]) @ [v]"
    using assms by (simp add: take_Suc_conv_app_nth)
  also have "take (Suc p) (xs[p := v, Suc p := v]) = take p xs @ [v]"
    using assms by (simp add: take_Suc_conv_app_nth)
  finally show ?thesis by simp
qed

lemma copy_loop_result:
  assumes "n - i = k" "ptr2 sp = Some p" "p + 2 * k \<le> length (rx_buffer sp)"
    and "2 * n \<le> length buf"
  shows "copy_loop buf n i sp =
           Some (sp\<lparr>rx_buffer := take p (rx_buffer sp) @ twice (map (sample_at buf) [i..<n])
                                     @ drop (p + 2 * k) (rx_buffer sp),
                    ptr2 := Some (p + 2 * k)\<rparr>)"
  using assms
proof (induction k arbitrary: i sp p)
  case 0
  then show ?case
    by (simp add: copy_loop.simps [of buf n i sp] twice_def)
next
  case (Suc k)
  then have i: "i < n" and k: "n - (i + 1) = k" by auto
  let ?v = "sample_at buf i"
  let ?sp = "sp\<lparr>rx_buffer := (rx_buffer sp)[p := ?v, p + 1 := ?v], ptr2 := Some (p + 2)\<rparr>"
  have rd: "read_i16 buf i = Some ?v"
    using i Suc.prems(4) by (simp add: read_i16_def sample_at_def)
  have p: "p + 1 < length (rx_buffer sp)"
    using Suc.prems(3) by simp
  have two: "Option.bind (put_sample ?v sp) (put_sample ?v) = Some ?sp"
    using put_two [OF Suc.prems(2) p] .
  have step: "copy_loop buf n i sp = copy_loop buf n (i + 1) ?sp"
    using i rd two
    by (subst copy_loop.simps) (auto simp: Option.bind_eq_Some_conv split: option.splits)
  have ih: "copy_loop buf n (i + 1) ?sp =
      Some (?sp\<lparr>rx_buffer := take (p + 2) (rx_buffer ?sp) @ twice (map (sample_at buf) [i + 1..<n])
                                     @ drop (p + 2 + 2 * k) (rx_buffer ?sp),
                    ptr2 := Some (p + 2 + 2 * k)\<rparr>)"
    using Suc.prems(3,4) by (intro Suc.IH [OF k]) auto
  have up: "[i..<n] = i # [i + 1..<n]"
    using i by (simp add: upt_conv_Cons)
  show ?case
    unfolding step ih using p
    by (simp add: take_two_updates [simplified] up twice_Cons)
qed

lemma speak_header_800:
  "speak drv 4 header_800 sp =
     Some (4, sp\<lparr>current_length := 800, ptr2 := Some 0, clear_ptr := Some 0\<rparr>)"
  by (simp add: speak_def read_u32_def header_800_def)

lemma samples_chunk_400: "map (sample_at chunk_400) [0..<200] = replicate 200 257"
  by (rule nth_equalityI) (simp_all add: sample_at_def chunk_400_def)

lemma speak_first_chunk:
  assumes "current_length sp = 800" "ptr2 sp = Some 0" "length (rx_buffer sp) = 5000"
  shows "speak drv 400 chunk_400 sp =
           Some (400, sp\<lparr>rx_buffer := replicate 400 257 @ drop 400 (rx_buffer sp),
                         ptr2 := Some 400, current_length := 400,
                         offset := word_of_int (uint (offset sp) + 400)\<rparr>)"
proof -
  let ?sp = "sp\<lparr>current_length := 400\<rparr>"
  have n: "nat (c_div 400 2) = 200"
    by (simp add: c_div_def)
  have "copy_loop chunk_400 200 0 ?sp =
          Some (?sp\<lparr>rx_buffer := take 0 (rx_buffer ?sp)
                         @ twice (map (sample_at chunk_400) [0..<200])
                         @ drop (0 + 2 * 200) (rx_buffer ?sp),
                     ptr2 := Some (0 + 2 * 200)\<rparr>)"
    using assms by (intro copy_loop_result) (simp_all add: chunk_400_def)
  then have loop: "copy_loop chunk_400 200 0 ?sp =
          Some (?sp\<lparr>rx_buffer := replicate 400 257 @ drop 400 (rx_buffer sp),
                     ptr2 := Some 400\<rparr>)"
    by (simp add: samples_chunk_400 twice_replicate)
  show ?thesis
    using assms(1) by (simp add: speak_def PACKET_SIZE_def n loop)
qed

lemma speak_exact_packet:
  assumes "len \<noteq> 4" "current_length sp = 400"
  shows "speak drv len buf sp = Some (len, sp)"
  using assms by (simp add: speak_def PACKET_SIZE_def)

lemma play_mono_loop_returns:
  "samples \<le> length buffer \<Longrightarrow> \<exists>r st'. play_mono_loop drv buffer samples i st = Some (r, st')"
proof (induction drv buffer samples i st rule: play_mono_loop.induct)
  case (1 drv buffer samples i st)
  show ?case
  proof (cases "i < samples")
    case False
    then show ?thesis
      by (simp add: play_mono_loop.simps [of drv buffer samples i st])
  next
    case True
    then have len: "i < length buffer"
      using "1.prems" by simp
    obtain e1 s1 where l:
      "pwm_set drv pwm_audio_l (audio_sample_to_pwm st (buffer ! i)) st = (e1, s1)"
      by (cases "pwm_set drv pwm_audio_l (audio_sample_to_pwm st (buffer ! i)) st")
    obtain e2 s2 where r:
      "pwm_set drv pwm_audio_r (audio_sample_to_pwm st (buffer ! i)) s1 = (e2, s2)"
      by (cases "pwm_set drv pwm_audio_r (audio_sample_to_pwm st (buffer ! i)) s1")
    show ?thesis
    proof (cases "e1 = 0 \<and> e2 = 0")
      case False
      then show ?thesis
        using True len l r
        by (auto simp: play_mono_loop.simps [of drv buffer samples i st] Let_def)
    next
      case ok: True
      have "\<exists>r st'. play_mono_loop drv buffer samples (i + 1) s2 = Some (r, st')"
        using "1.IH" [OF True len refl refl l [symmetric] refl _ r [symmetric] refl] ok "1.prems"
        by simp
      then show ?thesis
        using True len l r ok
        by (simp add: play_mono_loop.simps [of drv buffer samples i st] Let_def)
    qed
  qed
qed

lemma pwm_audio_play_mono_returns:
  "samples \<le> length buffer \<Longrightarrow>
   \<exists>r st'. pwm_audio_play_mono drv buffer samples st = Some (r, st')"
  using play_mono_loop_returns [of samples buffer drv 0 st]
  by (simp add: pwm_audio_play_mono_def)

text \<open>
  The branch for the last chunk, for comparison: when fewer than \<open>PACKET_SIZE\<close> bytes
  remain and the chunk fits the block, \<open>speak\<close> copies it, calls
  \<open>pwm_audio_play_mono\<close> once on the \<open>MAX_BLOCK_SIZE / 2\<close> samples of the block and
  leaves the block zeroed.
\<close>

lemma speak_last_chunk:
  assumes "len \<noteq> 4" and "uint (current_length sp) < PACKET_SIZE"
    and "ptr2 sp = Some p" and "clear_ptr sp = Some 0"
    and "length (rx_buffer sp) = MAX_BLOCK_SIZE div 2"
    and "p + 2 * (unat len div 2) \<le> MAX_BLOCK_SIZE div 2"
    and "2 * (unat len div 2) \<le> length buf"
  shows "\<exists>sp'. speak drv len buf sp = Some (len, sp')
           \<and> play_mono_calls sp' = play_mono_calls sp @ [MAX_BLOCK_SIZE div 2]
           \<and> rx_buffer sp' = replicate (MAX_BLOCK_SIZE div 2) 0
           \<and> offset sp' = 0"
proof -
  let ?n = "unat len div 2"
  let ?sp = "sp\<lparr>current_length := current_length sp - len\<rparr>"
  define blk where
    "blk = take p (rx_buffer sp) @ twice (map (sample_at buf) [0..<?n])
             @ drop (p + 2 * ?n) (rx_buffer sp)"
  have n: "nat (c_div (uint len) 2) = ?n"
    by (simp add: c_div_def nat_div_distrib)
  have loop: "copy_loop buf ?n 0 ?sp = Some (?sp\<lparr>rx_buffer := blk, ptr2 := Some (p + 2 * ?n)\<rparr>)"
    using copy_loop_result [of ?n 0 ?n ?sp p buf] assms(3,5,6,7) by (simp add: blk_def)
  have t: "length (twice xs) = 2 * length xs" for xs :: "16 word list"
    by (induction xs) (simp_all add: twice_def)
  have len: "length blk = MAX_BLOCK_SIZE div 2"
    using assms(5,6) by (simp add: blk_def t)
  obtain res eng where play:
    "pwm_audio_play_mono drv blk (MAX_BLOCK_SIZE div 2) (audio sp) = Some (res, eng)"
    using pwm_audio_play_mono_returns [of "MAX_BLOCK_SIZE div 2" blk drv "audio sp"] len
    by auto
  show ?thesis
    using assms(1,2,4)
    by (simp add: speak_def Let_def n loop play memset_zero_def len)
qed


text \<open>
  C1, evaluated. After the control chunk announcing 800 bytes the first chunk of 400 bytes
  is copied and leaves 400 bytes to come; at the second chunk the remaining length is
  neither above nor below \<open>PACKET_SIZE\<close>, so \<open>speak\<close> returns without copying,
  playing or clearing. No call of \<open>pwm_audio_play_mono\<close> has been made, the engine has
  seen no driver call, and the block holds the samples of the first chunk.
\<close>

theorem speak_800_in_two_chunks_never_plays:
  "Option.bind (speak drv_ok 4 header_800 (speaker_ready engine_playing))
     (\<lambda>(n1, sp1). Option.bind (speak drv_ok 400 chunk_400 sp1)
        (\<lambda>(n2, sp2). speak drv_ok 400 chunk_400 sp2))
   = Some (400, (speaker_ready engine_playing)
                  \<lparr>rx_buffer := replicate 400 257 @ replicate 4600 0,
                   ptr2 := Some 400, clear_ptr := Some 0,
                   current_length := 400, offset := 400,
                   play_mono_calls := []\<rparr>)"
proof -
  let ?sp1 = "(speaker_ready engine_playing)
                \<lparr>current_length := 800, ptr2 := Some 0, clear_ptr := Some 0\<rparr>"
  have one: "speak drv_ok 400 chunk_400 ?sp1 =
      Some (400, ?sp1\<lparr>rx_buffer := replicate 400 257 @ drop 400 (rx_buffer ?sp1),
                      ptr2 := Some 400, current_length := 400,
                      offset := word_of_int (uint (offset ?sp1) + 400)\<rparr>)"
    by (rule speak_first_chunk) (simp_all add: speaker_ready_def MAX_BLOCK_SIZE_def)
  show ?thesis
    by (simp add: speak_header_800 one speak_exact_packet)
       (simp add: speaker_ready_def MAX_BLOCK_SIZE_def)
qed

end
